theory Spec2Isabelle
  imports Complex_Main "HOL-Library.Word"
begin

section \<open>The to-do application: data model\<close>

text \<open>
  The component \<^verbatim>\<open>App\<close> exists in two variants, \<^verbatim>\<open>src/app/index.tsx\<close> and its
  refactoring \<^verbatim>\<open>src/unnamed/part_001\<close>, which splits \<^verbatim>\<open>addOrUpdateTodo\<close> into
  \<^verbatim>\<open>updateTodo\<close>, \<^verbatim>\<open>addTodo\<close> and \<^verbatim>\<open>resetTodoInput\<close>. Both run the same
  statements in the same order; the definitions below follow the split variant.

  A JavaScript \<^verbatim>\<open>number\<close> used as identifier is only ever produced by
  \<^verbatim>\<open>Math.random()\<close> or read back from JSON, so it is a finite double, and it is
  only compared with \<^verbatim>\<open>===\<close> and tested for truthiness: it is a rational here
  (\<^verbatim>\<open>-0 === 0\<close>, and both are falsy).

  A JavaScript string is a sequence of 16-bit code units, and so are the texts the user
  types: the title of a task, the pending input and the query. The status message and
  the storage key only ever hold literals of the source and stay HOL strings.
\<close>

type_synonym code_unit = "16 word"

type_synonym js_string = "code_unit list"

text \<open>A literal of Latin-1 characters as the string of the code units of the same numbers.\<close>

definition units :: "string \<Rightarrow> js_string" where
  "units cs = map (\<lambda>c. of_nat (of_char c)) cs"

record ToDoType =
  id_num :: rat
  title :: js_string
  isDone :: bool

text \<open>
  Arrays are objects: \<^verbatim>\<open>Array.prototype.reverse\<close> changes one in place, so the
  state holds a reference to the array of tasks and the arrays live in a store. The
  task objects themselves are never assigned to, so they are values.
\<close>

type_synonym addr = nat

text \<open>
  The text \<^verbatim>\<open>JSON.stringify\<close> produces is represented by the array contents it
  encodes, copied at the time of the call.
\<close>

datatype json = JSON_text "ToDoType list"

definition JSON_stringify :: "ToDoType list \<Rightarrow> json" where
  "JSON_stringify xs = JSON_text xs"

text \<open>
  The hooks of \<^verbatim>\<open>App\<close> (\<open>todos\<close>, \<open>todoText\<close>, \<open>searchQuery\<close>, \<open>editingTodoId\<close>,
  \<open>successMessage\<close>), the store of arrays with its allocation pointer, and the
  environment: the key-value backend \<open>storage\<close>, the writes it has accepted
  (\<open>setItemLog\<close>), whether it rejects writes (\<open>storageFails\<close>), and the number of
  \<^verbatim>\<open>setTimeout\<close> callbacks waiting to clear the message (\<open>timers\<close>).
\<close>

record AppState =
  arrays :: "addr \<Rightarrow> ToDoType list"
  nextAddr :: addr
  todos :: addr
  todoText :: js_string
  searchQuery :: js_string
  editingTodoId :: "rat option"
  successMessage :: string
  storage :: "string \<Rightarrow> json option"
  setItemLog :: "(string \<times> json) list"
  storageFails :: bool
  timers :: nat

definition collection :: "AppState \<Rightarrow> ToDoType list" where
  "collection s = arrays s (todos s)"

definition newArray :: "ToDoType list \<Rightarrow> AppState \<Rightarrow> addr \<times> AppState" where
  "newArray xs s =
     (nextAddr s, s\<lparr>arrays := (arrays s)(nextAddr s := xs), nextAddr := Suc (nextAddr s)\<rparr>)"

text \<open>The array the state refers to is one that has been allocated.\<close>

definition allocated :: "AppState \<Rightarrow> bool" where
  "allocated s = (todos s < nextAddr s)"

section \<open>Built-ins of the language and of the platform\<close>

text \<open>
  \<^verbatim>\<open>String.prototype.trim\<close> strips white space and line terminators: TAB, LF, VT,
  FF, CR, the space separators of Unicode (U+0020, U+00A0, U+1680, U+2000 to U+200A,
  U+202F, U+205F, U+3000), the line and paragraph separators U+2028 and U+2029, and
  U+FEFF.
\<close>

definition isWhiteSpace :: "code_unit \<Rightarrow> bool" where
  "isWhiteSpace c =
     (c \<in> {0x9, 0xA, 0xB, 0xC, 0xD, 0x20, 0xA0, 0x1680, 0x2028, 0x2029, 0x202F, 0x205F,
            0x3000, 0xFEFF}
      \<or> (0x2000 \<le> c \<and> c \<le> 0x200A))"

definition trim :: "js_string \<Rightarrow> js_string" where
  "trim s = rev (dropWhile isWhiteSpace (rev (dropWhile isWhiteSpace s)))"

text \<open>
  \<^verbatim>\<open>String.prototype.toLowerCase\<close> follows the case tables of Unicode, which are
  not part of this repository; it is not a mapping of single code units, since a
  capital sigma becomes a final or a medial small sigma by its neighbours and U+0130
  becomes two code units. The rendering code takes the built-in as the parameter \<open>lc\<close>,
  and what is proved of it holds for every \<open>lc\<close>.

  For running the code on examples, \<open>toLowerCase\<close> below is the built-in on the texts
  made of Basic Latin, Latin-1 and the Greek letters U+0391 to U+03A9 and U+03B1 to
  U+03C9: the simple mappings of these code units (\<open>lowerUnit\<close>) and the rule
  Final_Sigma of \<^verbatim>\<open>SpecialCasing.txt\<close>, with the cased and the case-ignorable code
  units of these ranges. On a text with other code units it is not the built-in.
\<close>

definition lowerUnit :: "code_unit \<Rightarrow> code_unit" where
  "lowerUnit c =
     (if (0x41 \<le> c \<and> c \<le> 0x5A) \<or> (0xC0 \<le> c \<and> c \<le> 0xDE \<and> c \<noteq> 0xD7)
         \<or> (0x391 \<le> c \<and> c \<le> 0x3A9 \<and> c \<noteq> 0x3A2)
      then c + 32 else c)"

definition cased :: "code_unit \<Rightarrow> bool" where
  "cased c =
     ((0x41 \<le> c \<and> c \<le> 0x5A) \<or> (0x61 \<le> c \<and> c \<le> 0x7A)
      \<or> c \<in> {0xAA, 0xB5, 0xBA}
      \<or> (0xC0 \<le> c \<and> c \<le> 0xFF \<and> c \<noteq> 0xD7 \<and> c \<noteq> 0xF7)
      \<or> (0x391 \<le> c \<and> c \<le> 0x3A9 \<and> c \<noteq> 0x3A2)
      \<or> (0x3B1 \<le> c \<and> c \<le> 0x3C9))"

definition caseIgnorable :: "code_unit \<Rightarrow> bool" where
  "caseIgnorable c =
     (c \<in> {0x27, 0x2E, 0x3A, 0x5E, 0x60, 0xA8, 0xAD, 0xAF, 0xB4, 0xB7, 0xB8})"

text \<open>
  Final_Sigma: before the sigma, a cased letter and then case-ignorable code units only;
  after it, no cased letter behind case-ignorable code units.
\<close>

definition finalSigma :: "js_string \<Rightarrow> js_string \<Rightarrow> bool" where
  "finalSigma before after =
     ((case dropWhile caseIgnorable (rev before) of [] \<Rightarrow> False | b # bs \<Rightarrow> cased b)
      \<and> (case dropWhile caseIgnorable after of [] \<Rightarrow> True | a # as \<Rightarrow> \<not> cased a))"

fun lowerFrom :: "js_string \<Rightarrow> js_string \<Rightarrow> js_string" where
  "lowerFrom before [] = []"
| "lowerFrom before (c # rest) =
     (if c = 0x3A3 then (if finalSigma before rest then 0x3C2 else 0x3C3) else lowerUnit c)
     # lowerFrom (before @ [c]) rest"

definition toLowerCase :: "js_string \<Rightarrow> js_string" where
  "toLowerCase t = lowerFrom [] t"

fun startsWith :: "js_string \<Rightarrow> js_string \<Rightarrow> bool" where
  "startsWith s [] = True"
| "startsWith [] (c # q) = False"
| "startsWith (x # s) (c # q) = (x = c \<and> startsWith s q)"

text \<open>\<^verbatim>\<open>String.prototype.includes\<close>, searching from position 0.\<close>

fun String_includes :: "js_string \<Rightarrow> js_string \<Rightarrow> bool" where
  "String_includes [] q = (q = [])"
| "String_includes (x # s) q = (startsWith (x # s) q \<or> String_includes s q)"

text \<open>Truthiness of a value of type \<^verbatim>\<open>number | null\<close>.\<close>

definition truthy :: "rat option \<Rightarrow> bool" where
  "truthy v = (case v of None \<Rightarrow> False | Some n \<Rightarrow> n \<noteq> 0)"

text \<open>
  \<^verbatim>\<open>await AsyncStorage.setItem(key, value)\<close>: the promise rejects (\<open>Inl\<close>) and the
  rest of the caller does not run, or the backend stores the value (\<open>Inr\<close>).
\<close>

definition AsyncStorage_setItem :: "string \<Rightarrow> json \<Rightarrow> AppState \<Rightarrow> AppState + AppState" where
  "AsyncStorage_setItem k v s =
     (if storageFails s then Inl s
      else Inr (s\<lparr>storage := (storage s)(k \<mapsto> v), setItemLog := setItemLog s @ [(k, v)]\<rparr>))"

text \<open>The state the component is left in, whether the handler's promise resolved or not.\<close>

definition settled :: "AppState + AppState \<Rightarrow> AppState" where
  "settled r = (case r of Inl s \<Rightarrow> s | Inr s \<Rightarrow> s)"

section \<open>The event handlers\<close>

definition updateTodo :: "AppState \<Rightarrow> AppState + AppState" where
  "updateTodo s =
     (let (updatedTodos, s1) =
            newArray (map (\<lambda>todo. if Some (id_num todo) = editingTodoId s
                                   then todo\<lparr>title := todoText s\<rparr> else todo)
                          (arrays s (todos s))) s;
          s2 = s1\<lparr>todos := updatedTodos\<rparr>
      in case AsyncStorage_setItem ''my-todo'' (JSON_stringify (arrays s2 updatedTodos)) s2 of
           Inl e \<Rightarrow> Inl e
         | Inr s3 \<Rightarrow>
             Inr (s3\<lparr>successMessage := ''Todo edited successfully!'', editingTodoId := None\<rparr>))"

text \<open>The argument \<open>rnd\<close> is the value \<^verbatim>\<open>Math.random()\<close> returns in this call.\<close>

definition addTodo :: "rat \<Rightarrow> AppState \<Rightarrow> AppState + AppState" where
  "addTodo rnd s =
     (let newTodo = \<lparr>id_num = rnd, title = todoText s, isDone = False\<rparr>;
          (updatedTodos, s1) = newArray (arrays s (todos s) @ [newTodo]) s;
          s2 = s1\<lparr>todos := updatedTodos\<rparr>
      in case AsyncStorage_setItem ''my-todo'' (JSON_stringify (arrays s2 updatedTodos)) s2 of
           Inl e \<Rightarrow> Inl e
         | Inr s3 \<Rightarrow> Inr (s3\<lparr>successMessage := ''Todo added successfully!''\<rparr>))"

definition resetTodoInput :: "AppState \<Rightarrow> AppState" where
  "resetTodoInput s = s\<lparr>todoText := [], timers := Suc (timers s)\<rparr>"

definition addOrUpdateTodo :: "rat \<Rightarrow> AppState \<Rightarrow> AppState + AppState" where
  "addOrUpdateTodo rnd s =
     (if trim (todoText s) = [] then Inr s
      else case (if truthy (editingTodoId s) then updateTodo s else addTodo rnd s) of
             Inl e \<Rightarrow> Inl e
           | Inr s' \<Rightarrow> Inr (resetTodoInput s'))"

definition deleteTodo :: "rat \<Rightarrow> AppState \<Rightarrow> AppState + AppState" where
  "deleteTodo i s =
     (let (updatedTodos, s1) = newArray (filter (\<lambda>todo. id_num todo \<noteq> i) (arrays s (todos s))) s;
          s2 = s1\<lparr>todos := updatedTodos\<rparr>
      in case AsyncStorage_setItem ''my-todo'' (JSON_stringify (arrays s2 updatedTodos)) s2 of
           Inl e \<Rightarrow> Inl e
         | Inr s3 \<Rightarrow>
             Inr (s3\<lparr>successMessage := ''Todo deleted successfully!'', timers := Suc (timers s3)\<rparr>))"

definition handleDone :: "rat \<Rightarrow> AppState \<Rightarrow> AppState + AppState" where
  "handleDone i s =
     (let (updatedTodos, s1) =
            newArray (map (\<lambda>todo. if id_num todo = i then todo\<lparr>isDone := \<not> isDone todo\<rparr> else todo)
                          (arrays s (todos s))) s;
          s2 = s1\<lparr>todos := updatedTodos\<rparr>
      in AsyncStorage_setItem ''my-todo'' (JSON_stringify (arrays s2 updatedTodos)) s2)"

definition editTodo :: "rat \<Rightarrow> js_string \<Rightarrow> AppState \<Rightarrow> AppState" where
  "editTodo i t s = s\<lparr>editingTodoId := Some i, todoText := t\<rparr>"

text \<open>The text field's \<^verbatim>\<open>onChangeText\<close>.\<close>

definition setTodoText :: "js_string \<Rightarrow> AppState \<Rightarrow> AppState" where
  "setTodoText t s = s\<lparr>todoText := t\<rparr>"

section \<open>Rendering\<close>

text \<open>
  \<^verbatim>\<open>filteredTodos\<close>: \<^verbatim>\<open>filter\<close> returns a new array; with a falsy (empty) query the
  result is the very array the state holds. The argument \<open>lc\<close> is the built-in
  \<^verbatim>\<open>String.prototype.toLowerCase\<close>.
\<close>

definition filteredTodos :: "(js_string \<Rightarrow> js_string) \<Rightarrow> AppState \<Rightarrow> addr \<times> AppState" where
  "filteredTodos lc s =
     (if searchQuery s \<noteq> []
      then newArray (filter (\<lambda>todo. String_includes (lc (title todo)) (lc (searchQuery s)))
                            (arrays s (todos s))) s
      else (todos s, s))"

text \<open>\<^verbatim>\<open>Array.prototype.reverse\<close>: reverses the array in place and returns it.\<close>

definition Array_reverse :: "addr \<Rightarrow> AppState \<Rightarrow> addr \<times> AppState" where
  "Array_reverse a s = (a, s\<lparr>arrays := (arrays s)(a := rev (arrays s a))\<rparr>)"

text \<open>
  One render: the \<^verbatim>\<open>data\<close> handed to \<^verbatim>\<open>FlatList\<close>, and the state after the render.
\<close>

definition FlatList_data :: "(js_string \<Rightarrow> js_string) \<Rightarrow> AppState \<Rightarrow> ToDoType list \<times> AppState" where
  "FlatList_data lc s =
     (let (f, s1) = filteredTodos lc s;
          (d, s2) = Array_reverse f s1
      in (arrays s2 d, s2))"

section \<open>A specification-side notion and example states\<close>


text \<open>The state of \<^verbatim>\<open>App\<close> at its first render: every hook at its initial value.\<close>

definition initialState :: AppState where
  "initialState =
     \<lparr>arrays = (\<lambda>a. []), nextAddr = 1, todos = 0, todoText = [], searchQuery = [],
      editingTodoId = None, successMessage = [], storage = (\<lambda>k. None), setItemLog = [],
      storageFails = False, timers = 0\<rparr>"

definition withTodos :: "ToDoType list \<Rightarrow> AppState" where
  "withTodos xs = initialState\<lparr>arrays := (\<lambda>a. [])(0 := xs)\<rparr>"

definition buyMilk :: ToDoType where
  "buyMilk = \<lparr>id_num = 1 / 4, title = units ''Buy Milk'', isDone = False\<rparr>"

definition cleanHouse :: ToDoType where
  "cleanHouse = \<lparr>id_num = 1 / 2, title = units ''Clean House'', isDone = True\<rparr>"

text \<open>Two tasks that share the identifier \<open>1 / 4\<close>, and a task whose identifier is 0.\<close>

definition buyBread :: ToDoType where
  "buyBread = \<lparr>id_num = 1 / 4, title = units ''Buy Bread'', isDone = True\<rparr>"

text \<open>A task titled with the Greek word for street, in capitals.\<close>

definition odos :: ToDoType where
  "odos = \<lparr>id_num = 3 / 8, title = [0x39F, 0x394, 0x39F, 0x3A3], isDone = False\<rparr>"

definition zeroTask :: ToDoType where
  "zeroTask = \<lparr>id_num = 0, title = units ''Water plants'', isDone = False\<rparr>"

section \<open>Auxiliary facts\<close>

lemma collection_newArray:
  "newArray xs s = (a, s1) \<Longrightarrow> collection (s1\<lparr>todos := a\<rparr>) = xs"
  by (auto simp: newArray_def collection_def)

lemma collection_setItem:
  "collection (settled (AsyncStorage_setItem k v s)) = collection s"
  by (simp add: AsyncStorage_setItem_def settled_def collection_def)

lemma collection_handleDone:
  "collection (settled (handleDone i s)) =
     map (\<lambda>todo. if id_num todo = i then todo\<lparr>isDone := \<not> isDone todo\<rparr> else todo) (collection s)"
  by (simp add: handleDone_def Let_def newArray_def AsyncStorage_setItem_def settled_def collection_def)

lemma collection_deleteTodo:
  "collection (settled (deleteTodo i s)) = filter (\<lambda>todo. id_num todo \<noteq> i) (collection s)"
  by (simp add: deleteTodo_def Let_def newArray_def AsyncStorage_setItem_def settled_def collection_def)

lemma collection_updateTodo:
  "collection (settled (updateTodo s)) =
     map (\<lambda>todo. if Some (id_num todo) = editingTodoId s then todo\<lparr>title := todoText s\<rparr> else todo)
         (collection s)"
  by (simp add: updateTodo_def Let_def newArray_def AsyncStorage_setItem_def settled_def collection_def)

lemma collection_addTodo:
  "collection (settled (addTodo rnd s)) =
     collection s @ [\<lparr>id_num = rnd, title = todoText s, isDone = False\<rparr>]"
  by (simp add: addTodo_def Let_def newArray_def AsyncStorage_setItem_def settled_def collection_def)

lemma collection_resetTodoInput: "collection (resetTodoInput s) = collection s"
  by (simp add: resetTodoInput_def collection_def)

lemma settled_bind:
  "collection (settled (case r of Inl e \<Rightarrow> Inl e | Inr s' \<Rightarrow> Inr (resetTodoInput s'))) =
   collection (settled r)"
  by (cases r) (simp_all add: settled_def collection_resetTodoInput)

lemma collection_addOrUpdateTodo:
  "collection (settled (addOrUpdateTodo rnd s)) =
     (if trim (todoText s) = [] then collection s
      else if truthy (editingTodoId s) then collection (settled (updateTodo s))
      else collection (settled (addTodo rnd s)))"
  by (simp add: addOrUpdateTodo_def settled_bind) (simp add: settled_def)

lemma all_dropWhile: "(\<forall>x\<in>set (dropWhile P xs). P x) \<longleftrightarrow> (\<forall>x\<in>set xs. P x)"
  by (induction xs) auto

lemma trim_empty_iff: "trim t = [] \<longleftrightarrow> (\<forall>c\<in>set t. isWhiteSpace c)"
  by (simp add: trim_def all_dropWhile)






text \<open>
  Without a capital sigma, \<open>toLowerCase\<close> is the mapping of the single code units; so
  it is on every text of code units below 256.
\<close>

lemma lowerFrom_map: "0x3A3 \<notin> set t \<Longrightarrow> lowerFrom before t = map lowerUnit t"
  by (induction t arbitrary: before) auto

lemma toLowerCase_map: "0x3A3 \<notin> set t \<Longrightarrow> toLowerCase t = map lowerUnit t"
  by (simp add: toLowerCase_def lowerFrom_map)

lemma toLowerCase_latin1:
  assumes "\<forall>c\<in>set t. c < 0x100"
  shows "toLowerCase t = map lowerUnit t"
proof (rule toLowerCase_map)
  show "0x3A3 \<notin> set t"
  proof
    assume "0x3A3 \<in> set t"
    with assms have "(0x3A3 :: code_unit) < 0x100"
      by blast
    then show False
      by simp
  qed
qed

lemma FlatList_data_empty_query:
  "searchQuery s = [] \<Longrightarrow> collection (snd (FlatList_data lc s)) = rev (collection s)"
  by (simp add: FlatList_data_def filteredTodos_def Array_reverse_def collection_def)

lemma FlatList_data_query:
  "searchQuery s \<noteq> [] \<Longrightarrow> allocated s \<Longrightarrow> collection (snd (FlatList_data lc s)) = collection s"
  by (simp add: FlatList_data_def filteredTodos_def Array_reverse_def newArray_def
      collection_def allocated_def)

text \<open>
  The reference held in the state always points to an allocated array: this holds at
  the first render and every handler and every render keeps it.
\<close>

lemma allocated_initialState: "allocated initialState"
  by (simp add: allocated_def initialState_def)

lemma allocated_addOrUpdateTodo: "allocated s \<Longrightarrow> allocated (settled (addOrUpdateTodo rnd s))"
  by (simp add: allocated_def addOrUpdateTodo_def updateTodo_def addTodo_def newArray_def
      AsyncStorage_setItem_def settled_def resetTodoInput_def Let_def)

lemma allocated_deleteTodo: "allocated s \<Longrightarrow> allocated (settled (deleteTodo i s))"
  by (simp add: allocated_def deleteTodo_def newArray_def AsyncStorage_setItem_def settled_def
      Let_def)

lemma allocated_handleDone: "allocated s \<Longrightarrow> allocated (settled (handleDone i s))"
  by (simp add: allocated_def handleDone_def newArray_def AsyncStorage_setItem_def settled_def
      Let_def)

lemma allocated_editTodo: "allocated s \<Longrightarrow> allocated (setTodoText t' (editTodo i t s))"
  by (simp add: allocated_def editTodo_def setTodoText_def)

lemma allocated_FlatList_data: "allocated s \<Longrightarrow> allocated (snd (FlatList_data lc s))"
  by (simp add: allocated_def FlatList_data_def filteredTodos_def Array_reverse_def newArray_def)

lemma filter_nonempty_nth: "n < length xs \<Longrightarrow> P (xs ! n) \<Longrightarrow> 1 \<le> length (filter P xs)"
proof -
  assume "n < length xs" and "P (xs ! n)"
  then have "xs ! n \<in> set (filter P xs)"
    by simp
  then have "filter P xs \<noteq> []"
    by (metis empty_iff empty_set)
  then show ?thesis
    by (cases "filter P xs") simp_all
qed

lemma two_matches:
  assumes "j < k" and "k < length xs" and "f (xs ! j) = i" and "f (xs ! k) = i"
  shows "2 \<le> length (filter (\<lambda>x. f x = i) xs)"
proof -
  have xs: "xs = take k xs @ drop k xs"
    by simp
  have "1 \<le> length (filter (\<lambda>x. f x = i) (take k xs))"
    using assms by (intro filter_nonempty_nth [of j]) simp_all
  moreover have "1 \<le> length (filter (\<lambda>x. f x = i) (drop k xs))"
    using assms by (intro filter_nonempty_nth [of 0]) simp_all
  moreover have "length (filter (\<lambda>x. f x = i) xs)
                   = length (filter (\<lambda>x. f x = i) (take k xs))
                     + length (filter (\<lambda>x. f x = i) (drop k xs))"
    by (subst xs) (simp only: filter_append length_append)
  ultimately show ?thesis
    by simp
qed

lemmas example_defs =
  initialState_def withTodos_def buyMilk_def cleanHouse_def buyBread_def zeroTask_def odos_def

section \<open>The claims\<close>

text \<open>
  C1. Displaying the collection shows the tasks reversed without changing the stored
  collection. The code does not keep this: with an empty query \<^verbatim>\<open>filteredTodos\<close> is
  the stored array itself, and \<^verbatim>\<open>reverse\<close> turns it around in place. For the stored
  tasks \<open>[buyMilk, cleanHouse]\<close> one render leaves \<open>[cleanHouse, buyMilk]\<close> in the state.
\<close>

theorem FlatList_data_reverses_stored_collection:
  "searchQuery (withTodos [buyMilk, cleanHouse]) = []
   \<and> collection (withTodos [buyMilk, cleanHouse]) = [buyMilk, cleanHouse]
   \<and> fst (FlatList_data lc (withTodos [buyMilk, cleanHouse])) = [cleanHouse, buyMilk]
   \<and> collection (snd (FlatList_data lc (withTodos [buyMilk, cleanHouse]))) = [cleanHouse, buyMilk]
   \<and> collection (snd (FlatList_data lc (withTodos [buyMilk, cleanHouse])))
       \<noteq> collection (withTodos [buyMilk, cleanHouse])"
  by (simp add: FlatList_data_def filteredTodos_def Array_reverse_def collection_def example_defs)

text \<open>
  C5. A text that is empty or all white space makes \<^verbatim>\<open>addOrUpdateTodo\<close> return at
  once: the promise resolves and the whole state is the one before, so the collection
  and the edit target are unchanged and the backend has seen no write.
\<close>

theorem addOrUpdateTodo_blank_text:
  assumes "\<forall>c\<in>set (todoText s). isWhiteSpace c"
  shows "addOrUpdateTodo rnd s = Inr s"
  using assms by (simp add: addOrUpdateTodo_def trim_empty_iff)

theorem addOrUpdateTodo_blank_text_witness:
  "todoText (editTodo (1 / 4) (units ''  '') (withTodos [buyMilk])) = (units ''  '')
   \<and> isWhiteSpace 0x20
   \<and> addOrUpdateTodo (3 / 4) (editTodo (1 / 4) (units ''  '') (withTodos [buyMilk]))
       = Inr (editTodo (1 / 4) (units ''  '') (withTodos [buyMilk]))
   \<and> editingTodoId (editTodo (1 / 4) (units ''  '') (withTodos [buyMilk])) = Some (1 / 4)"
proof -
  have t: "todoText (editTodo (1 / 4) (units ''  '') (withTodos [buyMilk])) = (units ''  '')"
    by (simp add: editTodo_def)
  have w: "isWhiteSpace 0x20"
    by (simp add: isWhiteSpace_def)
  have h: "\<forall>c\<in>set (todoText (editTodo (1 / 4) (units ''  '') (withTodos [buyMilk]))). isWhiteSpace c"
    using w unfolding t by (simp add: units_def)
  have e: "editingTodoId (editTodo (1 / 4) (units ''  '') (withTodos [buyMilk])) = Some (1 / 4)"
    by (simp add: editTodo_def)
  from t w addOrUpdateTodo_blank_text [OF h, of "3 / 4"] e show ?thesis
    by (intro conjI)
qed

text \<open>
  C4. With no edit target and a text that is not blank, \<^verbatim>\<open>addOrUpdateTodo\<close> appends
  one task at the end: the collection is one longer, and the new task is not done and
  carries the text as typed, untrimmed. (This holds whether or not the write succeeds.)
\<close>

theorem addOrUpdateTodo_appends:
  assumes "trim (todoText s) \<noteq> []" and "editingTodoId s = None"
  shows "collection (settled (addOrUpdateTodo rnd s))
           = collection s @ [\<lparr>id_num = rnd, title = todoText s, isDone = False\<rparr>]
         \<and> length (collection (settled (addOrUpdateTodo rnd s))) = length (collection s) + 1
         \<and> isDone (last (collection (settled (addOrUpdateTodo rnd s)))) = False
         \<and> title (last (collection (settled (addOrUpdateTodo rnd s)))) = todoText s"
  using assms by (simp add: collection_addOrUpdateTodo collection_addTodo truthy_def)

theorem addOrUpdateTodo_appends_witness:
  "trim (todoText (setTodoText (units '' Call mum '') (withTodos [buyMilk]))) \<noteq> []
   \<and> editingTodoId (setTodoText (units '' Call mum '') (withTodos [buyMilk])) = None
   \<and> collection (settled (addOrUpdateTodo (3 / 4) (setTodoText (units '' Call mum '') (withTodos [buyMilk]))))
       = [buyMilk, \<lparr>id_num = 3 / 4, title = (units '' Call mum ''), isDone = False\<rparr>]"
proof -
  have h1: "trim (todoText (setTodoText (units '' Call mum '') (withTodos [buyMilk]))) \<noteq> []"
    by (simp add: setTodoText_def trim_def isWhiteSpace_def units_def)
  have h2: "editingTodoId (setTodoText (units '' Call mum '') (withTodos [buyMilk])) = None"
    by (simp add: setTodoText_def example_defs)
  show ?thesis
    using h1 h2 addOrUpdateTodo_appends [OF h1 h2, of "3 / 4"]
    by (simp add: setTodoText_def collection_def example_defs)
qed

text \<open>
  C7. Toggling the same identifier twice gives back the collection: every task, with
  every field, is what it was.
\<close>

theorem handleDone_twice:
  "collection (settled (handleDone i (settled (handleDone i s)))) = collection s"
proof -
  have "map (\<lambda>todo. if id_num todo = i then todo\<lparr>isDone := \<not> isDone todo\<rparr> else todo)
          (map (\<lambda>todo. if id_num todo = i then todo\<lparr>isDone := \<not> isDone todo\<rparr> else todo) xs) = xs"
    for xs :: "ToDoType list"
    by (induction xs) simp_all
  then show ?thesis
    by (simp only: collection_handleDone)
qed

theorem handleDone_twice_witness:
  "collection (settled (handleDone (1 / 4) (withTodos [buyMilk, cleanHouse])))
     = [buyMilk\<lparr>isDone := True\<rparr>, cleanHouse]
   \<and> collection (settled (handleDone (1 / 4)
         (settled (handleDone (1 / 4) (withTodos [buyMilk, cleanHouse])))))
     = [buyMilk, cleanHouse]"
proof -
  have c: "collection (withTodos [buyMilk, cleanHouse]) = [buyMilk, cleanHouse]"
    by (simp add: collection_def example_defs)
  have "collection (settled (handleDone (1 / 4) (withTodos [buyMilk, cleanHouse])))
          = map (\<lambda>todo. if id_num todo = 1 / 4 then todo\<lparr>isDone := \<not> isDone todo\<rparr> else todo)
              [buyMilk, cleanHouse]"
    by (simp only: collection_handleDone c)
  also have "\<dots> = [buyMilk\<lparr>isDone := True\<rparr>, cleanHouse]"
    by (simp add: example_defs)
  finally have once:
    "collection (settled (handleDone (1 / 4) (withTodos [buyMilk, cleanHouse])))
       = [buyMilk\<lparr>isDone := True\<rparr>, cleanHouse]" .
  have "collection (settled (handleDone (1 / 4)
          (settled (handleDone (1 / 4) (withTodos [buyMilk, cleanHouse])))))
          = collection (withTodos [buyMilk, cleanHouse])"
    by (rule handleDone_twice)
  then have twice:
    "collection (settled (handleDone (1 / 4)
       (settled (handleDone (1 / 4) (withTodos [buyMilk, cleanHouse])))))
       = [buyMilk, cleanHouse]"
    by (simp only: c)
  from once twice show ?thesis
    by (intro conjI)
qed

text \<open>
  C8. Deleting the same identifier a second time changes nothing more, and deleting an
  identifier that no task has leaves the collection as it is.
\<close>

theorem deleteTodo_idempotent:
  "collection (settled (deleteTodo i (settled (deleteTodo i s))))
     = collection (settled (deleteTodo i s))
   \<and> (i \<notin> id_num ` set (collection s) \<longrightarrow> collection (settled (deleteTodo i s)) = collection s)"
proof
  show "collection (settled (deleteTodo i (settled (deleteTodo i s))))
          = collection (settled (deleteTodo i s))"
    by (simp add: collection_deleteTodo)
  show "i \<notin> id_num ` set (collection s) \<longrightarrow> collection (settled (deleteTodo i s)) = collection s"
  proof
    assume "i \<notin> id_num ` set (collection s)"
    then have "\<forall>todo\<in>set (collection s). id_num todo \<noteq> i"
      by blast
    then show "collection (settled (deleteTodo i s)) = collection s"
      by (simp add: collection_deleteTodo)
  qed
qed

theorem deleteTodo_idempotent_witness:
  "3 / 4 \<notin> id_num ` set (collection (withTodos [buyMilk, cleanHouse]))
   \<and> collection (settled (deleteTodo (3 / 4) (withTodos [buyMilk, cleanHouse])))
       = [buyMilk, cleanHouse]
   \<and> collection (settled (deleteTodo (3 / 4)
         (settled (deleteTodo (3 / 4) (withTodos [buyMilk, cleanHouse])))))
       = [buyMilk, cleanHouse]"
proof -
  have h: "3 / 4 \<notin> id_num ` set (collection (withTodos [buyMilk, cleanHouse]))"
    by (simp add: collection_def example_defs)
  have c: "collection (withTodos [buyMilk, cleanHouse]) = [buyMilk, cleanHouse]"
    by (simp add: collection_def example_defs)
  show ?thesis
    using h c deleteTodo_idempotent [of "3 / 4" "withTodos [buyMilk, cleanHouse]"]
    by simp
qed

text \<open>
  C9. Where two tasks (at positions \<open>j < k\<close>) share the identifier, one call of
  \<^verbatim>\<open>deleteTodo\<close> removes every task with that identifier, both of them included, and
  one call of \<^verbatim>\<open>handleDone\<close> flips the flag of every task with that identifier, both
  of them included; tasks with another identifier are kept as they are.
\<close>

theorem shared_identifier_every_match:
  assumes "j < k" and "k < length (collection s)"
    and "id_num (collection s ! j) = i" and "id_num (collection s ! k) = i"
  shows "collection (settled (deleteTodo i s)) = filter (\<lambda>todo. id_num todo \<noteq> i) (collection s)
       \<and> i \<notin> id_num ` set (collection (settled (deleteTodo i s)))
       \<and> length (collection (settled (deleteTodo i s))) + 2 \<le> length (collection s)
       \<and> length (collection (settled (handleDone i s))) = length (collection s)
       \<and> (\<forall>m<length (collection s).
             collection (settled (handleDone i s)) ! m =
               (if id_num (collection s ! m) = i
                then (collection s ! m)\<lparr>isDone := \<not> isDone (collection s ! m)\<rparr>
                else collection s ! m))
       \<and> isDone (collection (settled (handleDone i s)) ! j) = (\<not> isDone (collection s ! j))
       \<and> isDone (collection (settled (handleDone i s)) ! k) = (\<not> isDone (collection s ! k))"
proof -
  have two: "2 \<le> length (filter (\<lambda>todo. id_num todo = i) (collection s))"
    using assms by (rule two_matches)
  have "length (filter (\<lambda>todo. id_num todo = i) (collection s))
          + length (filter (\<lambda>todo. \<not> id_num todo = i) (collection s)) = length (collection s)"
    by (rule sum_length_filter_compl)
  with two have len: "length (filter (\<lambda>todo. id_num todo \<noteq> i) (collection s)) + 2
                        \<le> length (collection s)"
    by simp
  have del: "i \<notin> id_num ` set (filter (\<lambda>todo. id_num todo \<noteq> i) (collection s))"
    by auto
  from assms have jl: "j < length (collection s)"
    by simp
  show ?thesis
    using len del jl assms by (simp add: collection_deleteTodo collection_handleDone)
qed

theorem shared_identifier_every_match_witness:
  "(0::nat) < 2 \<and> 2 < length (collection (withTodos [buyMilk, cleanHouse, buyBread]))
   \<and> id_num (collection (withTodos [buyMilk, cleanHouse, buyBread]) ! 0) = 1 / 4
   \<and> id_num (collection (withTodos [buyMilk, cleanHouse, buyBread]) ! 2) = 1 / 4
   \<and> collection (settled (deleteTodo (1 / 4) (withTodos [buyMilk, cleanHouse, buyBread])))
       = [cleanHouse]
   \<and> collection (settled (handleDone (1 / 4) (withTodos [buyMilk, cleanHouse, buyBread])))
       = [buyMilk\<lparr>isDone := True\<rparr>, cleanHouse, buyBread\<lparr>isDone := False\<rparr>]"
proof -
  have c: "collection (withTodos [buyMilk, cleanHouse, buyBread]) = [buyMilk, cleanHouse, buyBread]"
    by (simp add: collection_def example_defs)
  have h1: "(0::nat) < 2"
    by simp
  have h2: "2 < length (collection (withTodos [buyMilk, cleanHouse, buyBread]))"
    by (simp add: c)
  have ids: "id_num buyMilk = 1 / 4" "id_num cleanHouse \<noteq> 1 / 4" "id_num buyBread = 1 / 4"
    by (simp_all add: example_defs)
  have h3: "id_num (collection (withTodos [buyMilk, cleanHouse, buyBread]) ! 0) = 1 / 4"
    by (simp add: c ids)
  have h4: "id_num (collection (withTodos [buyMilk, cleanHouse, buyBread]) ! 2) = 1 / 4"
    by (simp add: c ids)
  from shared_identifier_every_match [OF h1 h2 h3 h4, THEN conjunct1]
  have "collection (settled (deleteTodo (1 / 4) (withTodos [buyMilk, cleanHouse, buyBread])))
          = filter (\<lambda>todo. id_num todo \<noteq> 1 / 4) [buyMilk, cleanHouse, buyBread]"
    by (simp only: c)
  also have "\<dots> = [cleanHouse]"
    by (simp add: example_defs)
  finally have d:
    "collection (settled (deleteTodo (1 / 4) (withTodos [buyMilk, cleanHouse, buyBread])))
       = [cleanHouse]" .
  have "collection (settled (handleDone (1 / 4) (withTodos [buyMilk, cleanHouse, buyBread])))
          = map (\<lambda>todo. if id_num todo = 1 / 4 then todo\<lparr>isDone := \<not> isDone todo\<rparr> else todo)
              [buyMilk, cleanHouse, buyBread]"
    by (simp only: collection_handleDone c)
  also have "\<dots> = [buyMilk\<lparr>isDone := True\<rparr>, cleanHouse, buyBread\<lparr>isDone := False\<rparr>]"
    by (simp add: example_defs)
  finally have t:
    "collection (settled (handleDone (1 / 4) (withTodos [buyMilk, cleanHouse, buyBread])))
       = [buyMilk\<lparr>isDone := True\<rparr>, cleanHouse, buyBread\<lparr>isDone := False\<rparr>]" .
  show ?thesis
    using h1 h2 h3 h4 d t by simp
qed

text \<open>
  C10. The identifier 0 is falsy. After \<^verbatim>\<open>editTodo(0, t)\<close> and a text that is not
  blank, \<^verbatim>\<open>addOrUpdateTodo\<close> takes the add branch: a new task is appended, the task
  with identifier 0 keeps its title, and the edit target stays 0.
\<close>

theorem zero_identifier_edit_appends:
  assumes "trim text \<noteq> []" and "k < length (collection s)" and "id_num (collection s ! k) = 0"
  shows "collection (settled (addOrUpdateTodo rnd (setTodoText text (editTodo 0 t s))))
           = collection s @ [\<lparr>id_num = rnd, title = text, isDone = False\<rparr>]
       \<and> collection (settled (addOrUpdateTodo rnd (setTodoText text (editTodo 0 t s)))) ! k
           = collection s ! k
       \<and> editingTodoId (settled (addOrUpdateTodo rnd (setTodoText text (editTodo 0 t s)))) = Some 0"
proof -
  let ?s = "setTodoText text (editTodo 0 t s)"
  have f: "todoText ?s = text" "editingTodoId ?s = Some 0" "collection ?s = collection s"
    by (simp_all add: setTodoText_def editTodo_def collection_def)
  have c: "collection (settled (addOrUpdateTodo rnd ?s))
             = collection s @ [\<lparr>id_num = rnd, title = text, isDone = False\<rparr>]"
    using assms(1) by (simp add: collection_addOrUpdateTodo collection_addTodo truthy_def f)
  have e: "editingTodoId (settled (addOrUpdateTodo rnd ?s)) = Some 0"
    using assms(1) f
    by (simp add: addOrUpdateTodo_def addTodo_def newArray_def AsyncStorage_setItem_def
        settled_def resetTodoInput_def truthy_def Let_def)
  show ?thesis
    using c e assms(2) by (simp add: nth_append)
qed

theorem zero_identifier_edit_appends_witness:
  "trim (units ''Water roses'') \<noteq> [] \<and> 0 < length (collection (withTodos [zeroTask]))
   \<and> id_num (collection (withTodos [zeroTask]) ! 0) = 0
   \<and> collection (settled (addOrUpdateTodo (3 / 4)
         (setTodoText (units ''Water roses'') (editTodo 0 (units ''Water plants'') (withTodos [zeroTask])))))
       = [zeroTask, \<lparr>id_num = 3 / 4, title = (units ''Water roses''), isDone = False\<rparr>]
   \<and> editingTodoId (settled (addOrUpdateTodo (3 / 4)
         (setTodoText (units ''Water roses'') (editTodo 0 (units ''Water plants'') (withTodos [zeroTask])))))
       = Some 0"
proof -
  have c: "collection (withTodos [zeroTask]) = [zeroTask]"
    by (simp add: collection_def example_defs)
  have h1: "trim (units ''Water roses'') \<noteq> []"
    by (simp add: trim_def isWhiteSpace_def units_def)
  have h2: "0 < length (collection (withTodos [zeroTask]))"
    by (simp add: c)
  have z: "id_num zeroTask = 0"
    by (simp add: zeroTask_def)
  have h3: "id_num (collection (withTodos [zeroTask]) ! 0) = 0"
    by (simp add: c z)
  show ?thesis
    using h1 h2 h3 zero_identifier_edit_appends [OF h1 h2 h3, of "3 / 4" "units ''Water plants''"]
    by (simp add: c)
qed




text \<open>
  C2 as stated fails: with a stale edit target \<^verbatim>\<open>addOrUpdateTodo\<close> is not a no-op.
  For the one stored task \<open>buyMilk\<close>, the edit target \<open>3 / 4\<close> that no task has, and
  the text \<open>Buy oat milk\<close>, it clears the edit target, sets the status message and
  writes a snapshot where none was stored.
\<close>

theorem stale_target_is_not_a_noop:
  "trim (todoText (setTodoText (units ''Buy oat milk'') (editTodo (3 / 4) (units ''Buy Milk'') (withTodos [buyMilk]))))
     \<noteq> []
   \<and> editingTodoId (setTodoText (units ''Buy oat milk'') (editTodo (3 / 4) (units ''Buy Milk'') (withTodos [buyMilk])))
       = Some (3 / 4)
   \<and> 3 / 4 \<notin> id_num `
       set (collection (setTodoText (units ''Buy oat milk'') (editTodo (3 / 4) (units ''Buy Milk'') (withTodos [buyMilk]))))
   \<and> successMessage (setTodoText (units ''Buy oat milk'') (editTodo (3 / 4) (units ''Buy Milk'') (withTodos [buyMilk])))
       = []
   \<and> storage (setTodoText (units ''Buy oat milk'') (editTodo (3 / 4) (units ''Buy Milk'') (withTodos [buyMilk])))
        ''my-todo'' = None
   \<and> editingTodoId (settled (addOrUpdateTodo (1 / 8)
        (setTodoText (units ''Buy oat milk'') (editTodo (3 / 4) (units ''Buy Milk'') (withTodos [buyMilk])))))
       = None
   \<and> successMessage (settled (addOrUpdateTodo (1 / 8)
        (setTodoText (units ''Buy oat milk'') (editTodo (3 / 4) (units ''Buy Milk'') (withTodos [buyMilk])))))
       = ''Todo edited successfully!''
   \<and> storage (settled (addOrUpdateTodo (1 / 8)
        (setTodoText (units ''Buy oat milk'') (editTodo (3 / 4) (units ''Buy Milk'') (withTodos [buyMilk])))))
        ''my-todo'' = Some (JSON_stringify [buyMilk])"
  by (simp add: addOrUpdateTodo_def updateTodo_def newArray_def AsyncStorage_setItem_def
      settled_def resetTodoInput_def truthy_def Let_def setTodoText_def editTodo_def
      collection_def trim_def isWhiteSpace_def units_def example_defs)

text \<open>
  C2 as amended. With a text that is not blank and an edit target that is not 0 and is
  the identifier of no task, \<^verbatim>\<open>addOrUpdateTodo\<close> leaves every task of the collection
  as it is, in its place; when the backend accepts the write, it stores the collection as
  the snapshot, sets the status message to the edited notice and clears the edit target.
\<close>

theorem addOrUpdateTodo_stale_target:
  assumes "trim (todoText s) \<noteq> []" and "editingTodoId s = Some i" and "i \<noteq> 0"
    and "i \<notin> id_num ` set (collection s)"
  shows "collection (settled (addOrUpdateTodo rnd s)) = collection s
       \<and> (\<not> storageFails s \<longrightarrow>
             editingTodoId (settled (addOrUpdateTodo rnd s)) = None
           \<and> successMessage (settled (addOrUpdateTodo rnd s)) = ''Todo edited successfully!''
           \<and> storage (settled (addOrUpdateTodo rnd s)) ''my-todo''
               = Some (JSON_stringify (collection s))
           \<and> setItemLog (settled (addOrUpdateTodo rnd s))
               = setItemLog s @ [(''my-todo'', JSON_stringify (collection s))])"
proof -
  from assms(4) have "\<forall>todo\<in>set (collection s). id_num todo \<noteq> i"
    by blast
  then have same: "map (\<lambda>todo. if Some (id_num todo) = Some i then todo\<lparr>title := todoText s\<rparr> else todo)
                     (collection s) = collection s"
    by (simp add: map_idI)
  have c: "collection (settled (addOrUpdateTodo rnd s)) = collection s"
    using assms(1-3) same by (simp add: collection_addOrUpdateTodo collection_updateTodo truthy_def)
  have r: "editingTodoId (settled (addOrUpdateTodo rnd s)) = None
           \<and> successMessage (settled (addOrUpdateTodo rnd s)) = ''Todo edited successfully!''
           \<and> storage (settled (addOrUpdateTodo rnd s)) ''my-todo''
               = Some (JSON_stringify (collection s))
           \<and> setItemLog (settled (addOrUpdateTodo rnd s))
               = setItemLog s @ [(''my-todo'', JSON_stringify (collection s))]"
    if "\<not> storageFails s"
    using that assms(1-3) same
    by (simp add: addOrUpdateTodo_def updateTodo_def newArray_def AsyncStorage_setItem_def
        settled_def resetTodoInput_def truthy_def Let_def collection_def)
  from c r show ?thesis
    by blast
qed

theorem addOrUpdateTodo_stale_target_witness:
  "trim (todoText (setTodoText (units ''Buy oat milk'') (editTodo (3 / 4) (units ''Buy Milk'') (withTodos [buyMilk]))))
     \<noteq> []
   \<and> editingTodoId (setTodoText (units ''Buy oat milk'') (editTodo (3 / 4) (units ''Buy Milk'') (withTodos [buyMilk])))
       = Some (3 / 4)
   \<and> (3 / 4 :: rat) \<noteq> 0
   \<and> 3 / 4 \<notin> id_num `
       set (collection (setTodoText (units ''Buy oat milk'') (editTodo (3 / 4) (units ''Buy Milk'') (withTodos [buyMilk]))))
   \<and> \<not> storageFails (setTodoText (units ''Buy oat milk'') (editTodo (3 / 4) (units ''Buy Milk'') (withTodos [buyMilk])))
   \<and> collection (settled (addOrUpdateTodo (1 / 8)
        (setTodoText (units ''Buy oat milk'') (editTodo (3 / 4) (units ''Buy Milk'') (withTodos [buyMilk])))))
       = [buyMilk]
   \<and> editingTodoId (settled (addOrUpdateTodo (1 / 8)
        (setTodoText (units ''Buy oat milk'') (editTodo (3 / 4) (units ''Buy Milk'') (withTodos [buyMilk])))))
       = None"
proof -
  let ?s = "setTodoText (units ''Buy oat milk'') (editTodo (3 / 4) (units ''Buy Milk'') (withTodos [buyMilk]))"
  have c: "collection ?s = [buyMilk]"
    by (simp add: setTodoText_def editTodo_def collection_def example_defs)
  have h1: "trim (todoText ?s) \<noteq> []"
    by (simp add: setTodoText_def trim_def isWhiteSpace_def units_def)
  have h2: "editingTodoId ?s = Some (3 / 4)"
    by (simp add: setTodoText_def editTodo_def)
  have h3: "(3 / 4 :: rat) \<noteq> 0"
    by simp
  have h4: "3 / 4 \<notin> id_num ` set (collection ?s)"
    unfolding c by (simp add: buyMilk_def)
  have h5: "\<not> storageFails ?s"
    by (simp add: setTodoText_def editTodo_def example_defs)
  show ?thesis
    using h1 h2 h3 h4 h5 addOrUpdateTodo_stale_target [OF h1 h2 h3 h4, of "1 / 8"]
    by (simp add: c)
qed

text \<open>
  C3 as stated fails: the update is addressed by identifier, not by task. Where
  \<open>buyMilk\<close> and \<open>buyBread\<close> share the identifier \<open>1 / 4\<close>, editing \<open>buyMilk\<close> also
  replaces the title of \<open>buyBread\<close>, another task.
\<close>

theorem edit_changes_another_task:
  "trim (todoText (setTodoText (units ''Buy oat milk'')
           (editTodo (id_num buyMilk) (title buyMilk) (withTodos [buyMilk, buyBread])))) \<noteq> []
   \<and> editingTodoId (setTodoText (units ''Buy oat milk'')
           (editTodo (id_num buyMilk) (title buyMilk) (withTodos [buyMilk, buyBread])))
       = Some (id_num (collection (withTodos [buyMilk, buyBread]) ! 0))
   \<and> collection (withTodos [buyMilk, buyBread]) ! 1 = buyBread
   \<and> collection (settled (addOrUpdateTodo (1 / 8) (setTodoText (units ''Buy oat milk'')
           (editTodo (id_num buyMilk) (title buyMilk) (withTodos [buyMilk, buyBread]))))) ! 1
       = buyBread\<lparr>title := (units ''Buy oat milk'')\<rparr>
   \<and> collection (settled (addOrUpdateTodo (1 / 8) (setTodoText (units ''Buy oat milk'')
           (editTodo (id_num buyMilk) (title buyMilk) (withTodos [buyMilk, buyBread]))))) ! 1
       \<noteq> collection (withTodos [buyMilk, buyBread]) ! 1"
  by (simp add: addOrUpdateTodo_def updateTodo_def newArray_def AsyncStorage_setItem_def
      settled_def resetTodoInput_def truthy_def Let_def setTodoText_def editTodo_def
      collection_def trim_def isWhiteSpace_def units_def example_defs)

text \<open>
  C3 as amended. With a text that is not blank and an edit target that is not 0 and is
  the identifier of a task of the collection, \<^verbatim>\<open>addOrUpdateTodo\<close> replaces the title of
  every task that has this identifier by the text, and there is such a task; every task
  keeps its place, its identifier and its flag; every task with another identifier is
  unchanged; and when the backend accepts the write the edit target is cleared.
\<close>

theorem addOrUpdateTodo_edits_matching:
  assumes "trim (todoText s) \<noteq> []" and "editingTodoId s = Some i" and "i \<noteq> 0"
    and "i \<in> id_num ` set (collection s)"
  shows "length (collection (settled (addOrUpdateTodo rnd s))) = length (collection s)
       \<and> (\<forall>k<length (collection s).
             collection (settled (addOrUpdateTodo rnd s)) ! k =
               (if id_num (collection s ! k) = i
                then (collection s ! k)\<lparr>title := todoText s\<rparr>
                else collection s ! k))
       \<and> (\<forall>k<length (collection s).
             id_num (collection (settled (addOrUpdateTodo rnd s)) ! k) = id_num (collection s ! k)
           \<and> isDone (collection (settled (addOrUpdateTodo rnd s)) ! k) = isDone (collection s ! k))
       \<and> (\<exists>k<length (collection s).
             id_num (collection s ! k) = i
           \<and> title (collection (settled (addOrUpdateTodo rnd s)) ! k) = todoText s)
       \<and> (\<not> storageFails s \<longrightarrow> editingTodoId (settled (addOrUpdateTodo rnd s)) = None)"
proof -
  have c: "collection (settled (addOrUpdateTodo rnd s))
             = map (\<lambda>todo. if id_num todo = i then todo\<lparr>title := todoText s\<rparr> else todo)
                 (collection s)"
    using assms(1-3) by (simp add: collection_addOrUpdateTodo collection_updateTodo truthy_def)
  from assms(4) obtain k where k: "k < length (collection s)" "id_num (collection s ! k) = i"
    by (auto simp: in_set_conv_nth)
  have e: "\<exists>k<length (collection s).
             id_num (collection s ! k) = i
           \<and> title (collection (settled (addOrUpdateTodo rnd s)) ! k) = todoText s"
    using k by (intro exI [of _ k]) (simp add: c)
  have r: "editingTodoId (settled (addOrUpdateTodo rnd s)) = None" if "\<not> storageFails s"
    using that assms(1-3)
    by (simp add: addOrUpdateTodo_def updateTodo_def newArray_def AsyncStorage_setItem_def
        settled_def resetTodoInput_def truthy_def Let_def)
  have l: "length (collection (settled (addOrUpdateTodo rnd s))) = length (collection s)"
    by (simp add: c)
  have n: "\<forall>k<length (collection s).
             collection (settled (addOrUpdateTodo rnd s)) ! k =
               (if id_num (collection s ! k) = i
                then (collection s ! k)\<lparr>title := todoText s\<rparr>
                else collection s ! k)"
    by (simp add: c)
  have f: "\<forall>k<length (collection s).
             id_num (collection (settled (addOrUpdateTodo rnd s)) ! k) = id_num (collection s ! k)
           \<and> isDone (collection (settled (addOrUpdateTodo rnd s)) ! k) = isDone (collection s ! k)"
    by (simp add: c)
  from l n f e r show ?thesis
    by blast
qed

theorem addOrUpdateTodo_edits_matching_witness:
  "trim (todoText (setTodoText (units ''Buy oat milk'')
           (editTodo (1 / 4) (units ''Buy Milk'') (withTodos [buyMilk, cleanHouse])))) \<noteq> []
   \<and> editingTodoId (setTodoText (units ''Buy oat milk'')
           (editTodo (1 / 4) (units ''Buy Milk'') (withTodos [buyMilk, cleanHouse]))) = Some (1 / 4)
   \<and> (1 / 4 :: rat) \<noteq> 0
   \<and> 1 / 4 \<in> id_num ` set (collection (setTodoText (units ''Buy oat milk'')
           (editTodo (1 / 4) (units ''Buy Milk'') (withTodos [buyMilk, cleanHouse]))))
   \<and> \<not> storageFails (setTodoText (units ''Buy oat milk'')
           (editTodo (1 / 4) (units ''Buy Milk'') (withTodos [buyMilk, cleanHouse])))
   \<and> length (collection (settled (addOrUpdateTodo (1 / 8) (setTodoText (units ''Buy oat milk'')
           (editTodo (1 / 4) (units ''Buy Milk'') (withTodos [buyMilk, cleanHouse])))))) = 2
   \<and> collection (settled (addOrUpdateTodo (1 / 8) (setTodoText (units ''Buy oat milk'')
           (editTodo (1 / 4) (units ''Buy Milk'') (withTodos [buyMilk, cleanHouse]))))) ! 0
       = buyMilk\<lparr>title := (units ''Buy oat milk'')\<rparr>
   \<and> collection (settled (addOrUpdateTodo (1 / 8) (setTodoText (units ''Buy oat milk'')
           (editTodo (1 / 4) (units ''Buy Milk'') (withTodos [buyMilk, cleanHouse]))))) ! 1
       = cleanHouse
   \<and> editingTodoId (settled (addOrUpdateTodo (1 / 8) (setTodoText (units ''Buy oat milk'')
           (editTodo (1 / 4) (units ''Buy Milk'') (withTodos [buyMilk, cleanHouse]))))) = None"
proof -
  let ?s = "setTodoText (units ''Buy oat milk'') (editTodo (1 / 4) (units ''Buy Milk'') (withTodos [buyMilk, cleanHouse]))"
  let ?r = "settled (addOrUpdateTodo (1 / 8) ?s)"
  have c: "collection ?s = [buyMilk, cleanHouse]"
    by (simp add: setTodoText_def editTodo_def collection_def example_defs)
  have t: "todoText ?s = (units ''Buy oat milk'')"
    by (simp add: setTodoText_def)
  have ids: "id_num buyMilk = 1 / 4" "id_num cleanHouse \<noteq> 1 / 4"
    by (simp_all add: example_defs)
  have h1: "trim (todoText ?s) \<noteq> []"
    by (simp add: setTodoText_def trim_def isWhiteSpace_def units_def)
  have h2: "editingTodoId ?s = Some (1 / 4)"
    by (simp add: setTodoText_def editTodo_def)
  have h3: "(1 / 4 :: rat) \<noteq> 0"
    by simp
  have h4: "1 / 4 \<in> id_num ` set (collection ?s)"
    unfolding c by (simp add: buyMilk_def)
  have h5: "\<not> storageFails ?s"
    by (simp add: setTodoText_def editTodo_def example_defs)
  note inst = addOrUpdateTodo_edits_matching [OF h1 h2 h3 h4, of "1 / 8"]
  from inst have l: "length (collection ?r) = length (collection ?s)"
    by blast
  from inst have n: "\<forall>k<length (collection ?s). collection ?r ! k =
      (if id_num (collection ?s ! k) = 1 / 4
       then (collection ?s ! k)\<lparr>title := todoText ?s\<rparr> else collection ?s ! k)"
    by blast
  from inst h5 have e: "editingTodoId ?r = None"
    by blast
  have l2: "length (collection ?r) = 2"
    using l by (simp only: c) simp
  have "(0::nat) < length (collection ?s)"
    by (simp only: c) simp
  with n have "collection ?r ! 0 =
      (if id_num (collection ?s ! 0) = 1 / 4
       then (collection ?s ! 0)\<lparr>title := todoText ?s\<rparr> else collection ?s ! 0)"
    by blast
  then have n0: "collection ?r ! 0 = buyMilk\<lparr>title := (units ''Buy oat milk'')\<rparr>"
    by (simp only: c t nth_Cons_0 ids simp_thms if_True)
  have "(1::nat) < length (collection ?s)"
    by (simp only: c) simp
  with n have "collection ?r ! 1 =
      (if id_num (collection ?s ! 1) = 1 / 4
       then (collection ?s ! 1)\<lparr>title := todoText ?s\<rparr> else collection ?s ! 1)"
    by blast
  then have n1: "collection ?r ! 1 = cleanHouse"
    using ids(2) by (simp only: c) simp
  from h1 h2 h3 h4 h5 l2 n0 n1 e show ?thesis
    by (intro conjI)
qed

end
